theory Spec2Isabelle
  imports Complex_Main
begin

section \<open>Python values, dictionaries and exceptions\<close>

text \<open>
  The exceptions the modelled code can raise. \<open>MissingEntryPointError\<close> is what the
  data-class lookup raises for a tag that names no data class; \<open>ValueError\<close> is what
  the host raises for an argument of the wrong class.
\<close>

datatype py_error =
  KeyError | IndexError | TypeError | AttributeError | ValueError | MissingEntryPointError

text \<open>
  The values that travel through the parsed-quantity table and the composer inputs.
  A dictionary is an association list in insertion order (Python 3.7 and later iterate in
  that order); its keys are strings. \<open>PKpoint p w d\<close> is a k-point object of the file
  parsers: \<open>get_point().tolist()\<close> gives \<open>p\<close>, \<open>get_weight()\<close> gives \<open>w\<close> and
  \<open>get_direct()\<close> gives \<open>d\<close>. Numbers are carried, never computed on.
\<close>

datatype pyval =
    PNone
  | PBool bool
  | PInt int
  | PFloat real
  | PStr string
  | PList "pyval list"
  | PDict "(string \<times> pyval) list"
  | PKpoint pyval pyval bool

type_synonym pydict = "(string \<times> pyval) list"

text \<open>\<open>d[key] = value\<close>: replaces the value in place, or appends a new key at the end.\<close>

fun dict_set :: "pydict \<Rightarrow> string \<Rightarrow> pyval \<Rightarrow> pydict" where
  "dict_set [] k v = [(k, v)]"
| "dict_set ((k', v') # d) k v = (if k' = k then (k, v) # d else (k', v') # dict_set d k v)"

text \<open>\<open>d.update(other)\<close>.\<close>

fun dict_update :: "pydict \<Rightarrow> pydict \<Rightarrow> pydict" where
  "dict_update d [] = d"
| "dict_update d ((k, v) # other) = dict_update (dict_set d k v) other"

text \<open>\<open>d[key]\<close> on a dictionary: \<open>KeyError\<close> when the key is missing.\<close>

definition dict_subscript :: "pydict \<Rightarrow> string \<Rightarrow> py_error + pyval" where
  "dict_subscript d k = (case map_of d k of None \<Rightarrow> Inl KeyError | Some v \<Rightarrow> Inr v)"

text \<open>\<open>obj[key]\<close> with a string key, on any value.\<close>

definition subscript :: "pyval \<Rightarrow> string \<Rightarrow> py_error + pyval" where
  "subscript obj k = (case obj of PDict d \<Rightarrow> dict_subscript d k | _ \<Rightarrow> Inl TypeError)"

text \<open>\<open>obj.get(key)\<close>: only a dictionary has the method; a missing key gives \<open>None\<close>.\<close>

definition py_get :: "pyval \<Rightarrow> string \<Rightarrow> py_error + pyval" where
  "py_get obj k =
     (case obj of
        PDict d \<Rightarrow> Inr (case map_of d k of None \<Rightarrow> PNone | Some v \<Rightarrow> v)
      | _ \<Rightarrow> Inl AttributeError)"

text \<open>\<open>obj.items()\<close>.\<close>

definition py_items :: "pyval \<Rightarrow> py_error + pydict" where
  "py_items obj = (case obj of PDict d \<Rightarrow> Inr d | _ \<Rightarrow> Inl AttributeError)"

text \<open>\<open>obj[0]\<close>: a dictionary of string keys has no key \<open>0\<close>.\<close>

definition index0 :: "pyval \<Rightarrow> py_error + pyval" where
  "index0 obj =
     (case obj of
        PList [] \<Rightarrow> Inl IndexError
      | PList (x # _) \<Rightarrow> Inr x
      | PStr [] \<Rightarrow> Inl IndexError
      | PStr (c # _) \<Rightarrow> Inr (PStr [c])
      | PDict _ \<Rightarrow> Inl KeyError
      | _ \<Rightarrow> Inl TypeError)"

text \<open>\<open>for x in obj\<close>: the elements the loop visits, or \<open>TypeError\<close>.\<close>

definition py_iter :: "pyval \<Rightarrow> py_error + pyval list" where
  "py_iter obj =
     (case obj of
        PList xs \<Rightarrow> Inr xs
      | PDict d \<Rightarrow> Inr (map (\<lambda>kv. PStr (fst kv)) d)
      | PStr s \<Rightarrow> Inr (map (\<lambda>c. PStr [c]) s)
      | _ \<Rightarrow> Inl TypeError)"

text \<open>The three getters of a k-point object.\<close>

definition get_direct :: "pyval \<Rightarrow> py_error + bool" where
  "get_direct obj = (case obj of PKpoint _ _ d \<Rightarrow> Inr d | _ \<Rightarrow> Inl AttributeError)"

definition get_point_tolist :: "pyval \<Rightarrow> py_error + pyval" where
  "get_point_tolist obj = (case obj of PKpoint p _ _ \<Rightarrow> Inr p | _ \<Rightarrow> Inl AttributeError)"

definition get_weight :: "pyval \<Rightarrow> py_error + pyval" where
  "get_weight obj = (case obj of PKpoint _ w _ \<Rightarrow> Inr w | _ \<Rightarrow> Inl AttributeError)"

section \<open>The host framework's data nodes\<close>

text \<open>
  The data classes belong to the host framework. A node is modelled by what its setters
  were given: the dictionary content, the cell and the atoms, the arrays and attributes,
  the explicit k-point list \<open>(points, weights, cartesian)\<close> or the mesh
  \<open>(mesh, offset)\<close>, the k-points node and the bands \<open>(eigenvalues, occupations)\<close>,
  and the file of a binary node. Calling a setter a class does not have is an
  \<open>AttributeError\<close>. The host validates what it is given, and that validation is not
  part of the repository; it is modelled in the two places where it rejects what the
  composer can pass: cartesian k-points on a node without a cell, and a k-points node
  without an explicit list handed to a bands node.
\<close>

datatype data_class =
  DictCls | StructureCls | ArrayCls | KpointsCls | TrajectoryCls | BandsCls
  | ChargedensityCls | WavefunCls

datatype node =
    DictData (dict_content: pydict)
  | StructureData (cell: pyval) (atoms: "(pyval \<times> pyval \<times> pyval) list")
  | ArrayData (arrays: pydict)
  | KpointsData (kpoints_list: "(pyval list \<times> pyval \<times> bool) option")
                (kpoints_mesh: "(pyval \<times> pyval) option")
  | TrajectoryData (arrays: pydict) (attributes: pydict)
  | BandsData (kpointsdata: "node option") (bands: "(pyval \<times> pyval) option")
  | ChargedensityData (node_file: pyval)
  | WavefunData (node_file: pyval)

text \<open>
  Modelled from the spec: \<open>get_data_class\<close> (module \<open>aiida_vasp.utils.aiida_utils\<close>) is
  not among the sources. It resolves a node-type tag to the host's data class; the tags
  that resolve are the supported ones the spec lists, and any other tag is a lookup
  error.
\<close>

definition get_data_class :: "string \<Rightarrow> py_error + data_class" where
  "get_data_class node_type =
     (if node_type = ''dict'' then Inr DictCls
      else if node_type = ''structure'' then Inr StructureCls
      else if node_type = ''array'' then Inr ArrayCls
      else if node_type = ''array.kpoints'' then Inr KpointsCls
      else if node_type = ''array.trajectory'' then Inr TrajectoryCls
      else if node_type = ''array.bands'' then Inr BandsCls
      else if node_type = ''vasp.chargedensity'' then Inr ChargedensityCls
      else if node_type = ''vasp.wavefun'' then Inr WavefunCls
      else Inl MissingEntryPointError)"

text \<open>\<open>cls()\<close>: the empty node of a class. The two binary classes need their file.\<close>

definition new_node :: "data_class \<Rightarrow> py_error + node" where
  "new_node c =
     (case c of
        DictCls \<Rightarrow> Inr (DictData [])
      | StructureCls \<Rightarrow> Inr (StructureData PNone [])
      | ArrayCls \<Rightarrow> Inr (ArrayData [])
      | KpointsCls \<Rightarrow> Inr (KpointsData None None)
      | TrajectoryCls \<Rightarrow> Inr (TrajectoryData [] [])
      | BandsCls \<Rightarrow> Inr (BandsData None None)
      | ChargedensityCls \<Rightarrow> Inl TypeError
      | WavefunCls \<Rightarrow> Inl TypeError)"

text \<open>\<open>cls(file=value)\<close>: only the two binary classes take a file.\<close>

definition new_file_node :: "data_class \<Rightarrow> pyval \<Rightarrow> py_error + node" where
  "new_file_node c f =
     (case c of
        ChargedensityCls \<Rightarrow> Inr (ChargedensityData f)
      | WavefunCls \<Rightarrow> Inr (WavefunData f)
      | _ \<Rightarrow> Inl TypeError)"

definition update_dict :: "node \<Rightarrow> pydict \<Rightarrow> py_error + node" where
  "update_dict n inputs =
     (case n of DictData d \<Rightarrow> Inr (DictData (dict_update d inputs)) | _ \<Rightarrow> Inl AttributeError)"

definition set_cell :: "node \<Rightarrow> pyval \<Rightarrow> py_error + node" where
  "set_cell n c =
     (case n of StructureData _ ats \<Rightarrow> Inr (StructureData c ats) | _ \<Rightarrow> Inl AttributeError)"

definition append_atom :: "node \<Rightarrow> pyval \<Rightarrow> pyval \<Rightarrow> pyval \<Rightarrow> py_error + node" where
  "append_atom n position symbols name =
     (case n of
        StructureData c ats \<Rightarrow> Inr (StructureData c (ats @ [(position, symbols, name)]))
      | _ \<Rightarrow> Inl AttributeError)"

definition set_array :: "node \<Rightarrow> string \<Rightarrow> pyval \<Rightarrow> py_error + node" where
  "set_array n k v =
     (case n of
        ArrayData a \<Rightarrow> Inr (ArrayData (dict_set a k v))
      | TrajectoryData a attrs \<Rightarrow> Inr (TrajectoryData (dict_set a k v) attrs)
      | _ \<Rightarrow> Inl AttributeError)"

definition set_attribute :: "node \<Rightarrow> string \<Rightarrow> pyval \<Rightarrow> py_error + node" where
  "set_attribute n k v =
     (case n of
        TrajectoryData a attrs \<Rightarrow> Inr (TrajectoryData a (dict_set attrs k v))
      | _ \<Rightarrow> Inl AttributeError)"

text \<open>
  \<open>set_kpoints\<close> of the host's k-points class. Cartesian points are converted with the
  cell of the node; no composer sets a cell, and reading the cell that is not there
  raises \<open>AttributeError\<close>.
\<close>

definition set_kpoints :: "node \<Rightarrow> pyval list \<Rightarrow> pyval \<Rightarrow> bool \<Rightarrow> py_error + node" where
  "set_kpoints n kpoint_list weights cartesian =
     (case n of
        KpointsData _ m \<Rightarrow>
          if cartesian then Inl AttributeError
          else Inr (KpointsData (Some (kpoint_list, weights, cartesian)) m)
      | _ \<Rightarrow> Inl AttributeError)"

definition set_kpoints_mesh :: "node \<Rightarrow> pyval \<Rightarrow> pyval \<Rightarrow> py_error + node" where
  "set_kpoints_mesh n mesh offset =
     (case n of
        KpointsData l _ \<Rightarrow> Inr (KpointsData l (Some (mesh, offset)))
      | _ \<Rightarrow> Inl AttributeError)"

text \<open>
  \<open>set_kpointsdata\<close> of the host's bands class. It takes a k-points node only
  (\<open>ValueError\<close> otherwise) and reads its explicit list of points; for a node that has
  none, as a mesh node, it goes on with \<open>None\<close> in place of the list and raises
  \<open>TypeError\<close>.
\<close>

definition set_kpointsdata :: "node \<Rightarrow> node \<Rightarrow> py_error + node" where
  "set_kpointsdata n kpoints =
     (case n of
        BandsData _ b \<Rightarrow>
          (case kpoints of
             KpointsData None _ \<Rightarrow> Inl TypeError
           | KpointsData (Some _) _ \<Rightarrow> Inr (BandsData (Some kpoints) b)
           | _ \<Rightarrow> Inl ValueError)
      | _ \<Rightarrow> Inl AttributeError)"

definition set_bands :: "node \<Rightarrow> pyval \<Rightarrow> pyval \<Rightarrow> py_error + node" where
  "set_bands n eigenvalues occupations =
     (case n of
        BandsData k _ \<Rightarrow> Inr (BandsData k (Some (eigenvalues, occupations)))
      | _ \<Rightarrow> Inl AttributeError)"

section \<open>Node composition (\<open>parsers/node_composer.py\<close>)\<close>

text \<open>\<open>get_data_class(node_type)()\<close>.\<close>

definition new_data_node :: "string \<Rightarrow> py_error + node" where
  "new_data_node node_type =
     (case get_data_class node_type of Inl e \<Rightarrow> Inl e | Inr c \<Rightarrow> new_node c)"

definition compose_dict :: "string \<Rightarrow> pydict \<Rightarrow> py_error + node" where
  "compose_dict node_type inputs =
     (case new_data_node node_type of
        Inl e \<Rightarrow> Inl e
      | Inr n \<Rightarrow> update_dict n inputs)"

text \<open>The inner loop of \<open>_compose_structure\<close>: one \<open>append_atom\<close> per site.\<close>

fun append_sites :: "node \<Rightarrow> pyval list \<Rightarrow> py_error + node" where
  "append_sites n [] = Inr n"
| "append_sites n (site # sites) =
     (case subscript site ''position'' of
        Inl e \<Rightarrow> Inl e
      | Inr position \<Rightarrow>
     (case subscript site ''symbol'' of
        Inl e \<Rightarrow> Inl e
      | Inr symbols \<Rightarrow>
     (case subscript site ''kind_name'' of
        Inl e \<Rightarrow> Inl e
      | Inr name \<Rightarrow>
     (case append_atom n position symbols name of
        Inl e \<Rightarrow> Inl e
      | Inr n' \<Rightarrow> append_sites n' sites))))"

fun structure_loop :: "pydict \<Rightarrow> string list \<Rightarrow> node \<Rightarrow> py_error + node" where
  "structure_loop inputs [] n = Inr n"
| "structure_loop inputs (key # keys) n =
     (case dict_subscript inputs key of
        Inl e \<Rightarrow> Inl e
      | Inr item \<Rightarrow>
     (case subscript item ''unitcell'' of
        Inl e \<Rightarrow> Inl e
      | Inr unitcell \<Rightarrow>
     (case set_cell n unitcell of
        Inl e \<Rightarrow> Inl e
      | Inr n1 \<Rightarrow>
     (case subscript item ''sites'' of
        Inl e \<Rightarrow> Inl e
      | Inr sites \<Rightarrow>
     (case py_iter sites of
        Inl e \<Rightarrow> Inl e
      | Inr site_list \<Rightarrow>
     (case append_sites n1 site_list of
        Inl e \<Rightarrow> Inl e
      | Inr n2 \<Rightarrow> structure_loop inputs keys n2))))))"

definition compose_structure :: "string \<Rightarrow> pydict \<Rightarrow> py_error + node" where
  "compose_structure node_type inputs =
     (case new_data_node node_type of
        Inl e \<Rightarrow> Inl e
      | Inr n \<Rightarrow> structure_loop inputs (map fst inputs) n)"

text \<open>The inner loop of \<open>_compose_array\<close>: one \<open>set_array\<close> per key of the item.\<close>

fun set_arrays :: "node \<Rightarrow> pydict \<Rightarrow> py_error + node" where
  "set_arrays n [] = Inr n"
| "set_arrays n ((key, v) # rest) =
     (case set_array n key v of Inl e \<Rightarrow> Inl e | Inr n' \<Rightarrow> set_arrays n' rest)"

fun array_loop :: "pydict \<Rightarrow> string list \<Rightarrow> node \<Rightarrow> py_error + node" where
  "array_loop inputs [] n = Inr n"
| "array_loop inputs (item # items) n =
     (case dict_subscript inputs item of
        Inl e \<Rightarrow> Inl e
      | Inr v \<Rightarrow>
     (case py_items v of
        Inl e \<Rightarrow> Inl e
      | Inr kvs \<Rightarrow>
     (case set_arrays n kvs of
        Inl e \<Rightarrow> Inl e
      | Inr n' \<Rightarrow> array_loop inputs items n')))"

definition compose_array :: "string \<Rightarrow> pydict \<Rightarrow> py_error + node" where
  "compose_array node_type inputs =
     (case new_data_node node_type of
        Inl e \<Rightarrow> Inl e
      | Inr n \<Rightarrow> array_loop inputs (map fst inputs) n)"

text \<open>
  The loop of \<open>_compose_vasp_wavefun\<close>: \<open>node\<close> starts as \<open>None\<close> and every key
  replaces it by a new node built from that key's value.
\<close>

fun wavefun_loop :: "string \<Rightarrow> pydict \<Rightarrow> string list \<Rightarrow> node option \<Rightarrow> py_error + node option" where
  "wavefun_loop node_type inputs [] n = Inr n"
| "wavefun_loop node_type inputs (key # keys) n =
     (case get_data_class node_type of
        Inl e \<Rightarrow> Inl e
      | Inr c \<Rightarrow>
     (case dict_subscript inputs key of
        Inl e \<Rightarrow> Inl e
      | Inr v \<Rightarrow>
     (case new_file_node c v of
        Inl e \<Rightarrow> Inl e
      | Inr n' \<Rightarrow> wavefun_loop node_type inputs keys (Some n'))))"

definition compose_vasp_wavefun :: "string \<Rightarrow> pydict \<Rightarrow> py_error + node option" where
  "compose_vasp_wavefun node_type inputs = wavefun_loop node_type inputs (map fst inputs) None"

text \<open>The loop of \<open>_compose_vasp_chargedensity\<close>, written out a second time in the source.\<close>

fun chargedensity_loop :: "string \<Rightarrow> pydict \<Rightarrow> string list \<Rightarrow> node option \<Rightarrow> py_error + node option" where
  "chargedensity_loop node_type inputs [] n = Inr n"
| "chargedensity_loop node_type inputs (key # keys) n =
     (case get_data_class node_type of
        Inl e \<Rightarrow> Inl e
      | Inr c \<Rightarrow>
     (case dict_subscript inputs key of
        Inl e \<Rightarrow> Inl e
      | Inr v \<Rightarrow>
     (case new_file_node c v of
        Inl e \<Rightarrow> Inl e
      | Inr n' \<Rightarrow> chargedensity_loop node_type inputs keys (Some n'))))"

definition compose_vasp_chargedensity :: "string \<Rightarrow> pydict \<Rightarrow> py_error + node option" where
  "compose_vasp_chargedensity node_type inputs =
     chargedensity_loop node_type inputs (map fst inputs) None"

text \<open>
  The loop over the explicit k-points: collects \<open>get_point().tolist()\<close> and
  \<open>get_weight()\<close> of each point.
\<close>

fun kpoint_loop :: "pyval list \<Rightarrow> pyval list \<Rightarrow> pyval list \<Rightarrow> py_error + (pyval list \<times> pyval list)" where
  "kpoint_loop [] kpoint_list weights = Inr (kpoint_list, weights)"
| "kpoint_loop (kpoint # rest) kpoint_list weights =
     (case get_point_tolist kpoint of
        Inl e \<Rightarrow> Inl e
      | Inr p \<Rightarrow>
     (case get_weight kpoint of
        Inl e \<Rightarrow> Inl e
      | Inr w \<Rightarrow> kpoint_loop rest (kpoint_list @ [p]) (weights @ [w])))"

text \<open>The branch \<open>mode == 'explicit'\<close> of \<open>_compose_array_kpoints\<close>.\<close>

definition kpoints_explicit :: "pyval \<Rightarrow> node \<Rightarrow> py_error + node" where
  "kpoints_explicit item n =
     (case py_get item ''points'' of
        Inl e \<Rightarrow> Inl e
      | Inr kpoints \<Rightarrow>
     (case index0 kpoints of
        Inl e \<Rightarrow> Inl e
      | Inr first \<Rightarrow>
     (case get_direct first of
        Inl e \<Rightarrow> Inl e
      | Inr direct \<Rightarrow>
     (case py_iter kpoints of
        Inl e \<Rightarrow> Inl e
      | Inr points \<Rightarrow>
     (case kpoint_loop points [] [] of
        Inl e \<Rightarrow> Inl e
      | Inr (kpoint_list, weights) \<Rightarrow>
     (case weights of
        [] \<Rightarrow> Inl IndexError
      | w # _ \<Rightarrow>
          set_kpoints n kpoint_list (if w = PNone then PNone else PList weights)
            (\<not> direct)))))))"

text \<open>The branch \<open>mode == 'automatic'\<close>.\<close>

definition kpoints_automatic :: "pyval \<Rightarrow> node \<Rightarrow> py_error + node" where
  "kpoints_automatic item n =
     (case py_get item ''divisions'' of
        Inl e \<Rightarrow> Inl e
      | Inr mesh \<Rightarrow>
     (case py_get item ''shifts'' of
        Inl e \<Rightarrow> Inl e
      | Inr shifts \<Rightarrow> set_kpoints_mesh n mesh shifts))"

fun kpoints_loop :: "pydict \<Rightarrow> string list \<Rightarrow> node \<Rightarrow> py_error + node" where
  "kpoints_loop inputs [] n = Inr n"
| "kpoints_loop inputs (key # keys) n =
     (case dict_subscript inputs key of
        Inl e \<Rightarrow> Inl e
      | Inr item \<Rightarrow>
     (case subscript item ''mode'' of
        Inl e \<Rightarrow> Inl e
      | Inr mode \<Rightarrow>
     (case (if mode = PStr ''explicit'' then kpoints_explicit item n else Inr n) of
        Inl e \<Rightarrow> Inl e
      | Inr n1 \<Rightarrow>
     (case (if mode = PStr ''automatic'' then kpoints_automatic item n1 else Inr n1) of
        Inl e \<Rightarrow> Inl e
      | Inr n2 \<Rightarrow> kpoints_loop inputs keys n2))))"

definition compose_array_kpoints :: "string \<Rightarrow> pydict \<Rightarrow> py_error + node" where
  "compose_array_kpoints node_type inputs =
     (case new_data_node node_type of
        Inl e \<Rightarrow> Inl e
      | Inr n \<Rightarrow> kpoints_loop inputs (map fst inputs) n)"

definition compose_array_bands :: "string \<Rightarrow> pydict \<Rightarrow> py_error + node" where
  "compose_array_bands node_type inputs =
     (case new_data_node node_type of
        Inl e \<Rightarrow> Inl e
      | Inr n \<Rightarrow>
     (case dict_subscript inputs ''kpoints'' of
        Inl e \<Rightarrow> Inl e
      | Inr kp \<Rightarrow>
     (case compose_array_kpoints ''array.kpoints'' [(''kpoints'', kp)] of
        Inl e \<Rightarrow> Inl e
      | Inr kpoints \<Rightarrow>
     (case set_kpointsdata n kpoints of
        Inl e \<Rightarrow> Inl e
      | Inr n1 \<Rightarrow>
     (case dict_subscript inputs ''eigenvalues'' of
        Inl e \<Rightarrow> Inl e
      | Inr eigenvalues \<Rightarrow>
     (case dict_subscript inputs ''occupancies'' of
        Inl e \<Rightarrow> Inl e
      | Inr occupancies \<Rightarrow> set_bands n1 eigenvalues occupancies))))))"

text \<open>
  The inner loop of \<open>_compose_array_trajectory\<close>: the key \<open>symbols\<close> goes to the
  attributes, every other key to the arrays.
\<close>

fun set_trajectory :: "node \<Rightarrow> pydict \<Rightarrow> py_error + node" where
  "set_trajectory n [] = Inr n"
| "set_trajectory n ((key, v) # rest) =
     (case (if key = ''symbols'' then set_attribute n key v else set_array n key v) of
        Inl e \<Rightarrow> Inl e
      | Inr n' \<Rightarrow> set_trajectory n' rest)"

fun trajectory_loop :: "pydict \<Rightarrow> string list \<Rightarrow> node \<Rightarrow> py_error + node" where
  "trajectory_loop inputs [] n = Inr n"
| "trajectory_loop inputs (item # items) n =
     (case dict_subscript inputs item of
        Inl e \<Rightarrow> Inl e
      | Inr v \<Rightarrow>
     (case py_items v of
        Inl e \<Rightarrow> Inl e
      | Inr kvs \<Rightarrow>
     (case set_trajectory n kvs of
        Inl e \<Rightarrow> Inl e
      | Inr n' \<Rightarrow> trajectory_loop inputs items n')))"

definition compose_array_trajectory :: "string \<Rightarrow> pydict \<Rightarrow> py_error + node" where
  "compose_array_trajectory node_type inputs =
     (case new_data_node node_type of
        Inl e \<Rightarrow> Inl e
      | Inr n \<Rightarrow> trajectory_loop inputs (map fst inputs) n)"

text \<open>
  \<open>compose\<close> looks the method up by name: \<open>'_compose_' + node_type.replace('.', '_')\<close>.
  The class has these eight attributes whose name starts with \<open>_compose_\<close>; \<open>getattr\<close>
  on any other name raises \<open>AttributeError\<close>. A method that returns a node is lifted
  to the common result, a node or \<open>None\<close>.
\<close>

definition replace_dot :: "string \<Rightarrow> string" where
  "replace_dot s = map (\<lambda>c. if c = CHR ''.'' then CHR ''_'' else c) s"

definition returns_node :: "(string \<Rightarrow> pydict \<Rightarrow> py_error + node) \<Rightarrow> string \<Rightarrow> pydict \<Rightarrow> py_error + node option" where
  "returns_node f node_type inputs =
     (case f node_type inputs of Inl e \<Rightarrow> Inl e | Inr n \<Rightarrow> Inr (Some n))"

definition composer_methods :: "(string \<times> (string \<Rightarrow> pydict \<Rightarrow> py_error + node option)) list" where
  "composer_methods =
     [(''_compose_dict'', returns_node compose_dict),
      (''_compose_structure'', returns_node compose_structure),
      (''_compose_array'', returns_node compose_array),
      (''_compose_vasp_wavefun'', compose_vasp_wavefun),
      (''_compose_vasp_chargedensity'', compose_vasp_chargedensity),
      (''_compose_array_bands'', returns_node compose_array_bands),
      (''_compose_array_kpoints'', returns_node compose_array_kpoints),
      (''_compose_array_trajectory'', returns_node compose_array_trajectory)]"

definition compose :: "string \<Rightarrow> pydict \<Rightarrow> py_error + node option" where
  "compose node_type inputs =
     (case map_of composer_methods (''_compose_'' @ replace_dot node_type) of
        None \<Rightarrow> Inl AttributeError
      | Some method \<Rightarrow> method node_type inputs)"

section \<open>The quantity registry and the file parsers\<close>

text \<open>
  A parsable quantity, with the three attributes the code reads: \<open>name\<close> is the key
  under which its value is output, \<open>original_name\<close> the name under which it is
  registered and parsed, \<open>is_parsable\<close> whether the files it needs were retrieved.
\<close>

record quantity =
  name :: string
  original_name :: string
  is_parsable :: bool

text \<open>
  The class \<open>ParsableQuantities\<close> (module \<open>aiida_vasp.parsers.quantity\<close>) is not among
  the sources. A registry is taken as a parameter: the three queries the code makes.
  \<open>get_by_name\<close> answers \<open>None\<close> for a name it does not know; the other two can raise.
\<close>

record parsable_quantities =
  get_by_name :: "string \<Rightarrow> quantity option"
  get_equivalent_quantities :: "string \<Rightarrow> py_error + quantity list"
  get_missing_files :: "string \<Rightarrow> py_error + string list"

text \<open>
  The constructor \<open>ParsableQuantities()\<close> and the method \<open>add_parsable_quantity\<close> of the
  same class, parameters as well.
\<close>

record quantities_class =
  new_quantities :: parsable_quantities
  add_parsable_quantity :: "parsable_quantities \<Rightarrow> string \<Rightarrow> pyval \<Rightarrow> parsable_quantities"

text \<open>A file parser: its table of parsable items and its getter of a parsed value.\<close>

record file_parser =
  parsable_items :: pydict
  get_quantity :: "string \<Rightarrow> py_error + pyval"

text \<open>\<open>d.get(key)\<close> and \<open>key in d\<close> on a dictionary.\<close>

definition dict_get :: "pydict \<Rightarrow> string \<Rightarrow> pyval" where
  "dict_get d k = (case map_of d k of None \<Rightarrow> PNone | Some v \<Rightarrow> v)"

definition dict_contains :: "pydict \<Rightarrow> string \<Rightarrow> bool" where
  "dict_contains d k = (map_of d k \<noteq> None)"

section \<open>Collecting the composer inputs (\<open>parsers/node_composer.py\<close>)\<close>

definition NODES_TYPES :: "(string \<times> string list) list" where
  "NODES_TYPES =
     [(''dict'', [''total_energies'', ''maximum_force'', ''maximum_stress'', ''symmetries'',
                  ''magnetization'', ''site_magnetization'', ''notifications'']),
      (''array.kpoints'', [''kpoints'']),
      (''structure'', [''structure'']),
      (''array.trajectory'', [''trajectory'']),
      (''array.bands'', [''eigenvalues'', ''kpoints'', ''occupancies'']),
      (''vasp.chargedensity'', [''chgcar'']),
      (''vasp.wavefun'', [''wavecar'']),
      (''array'', [])]"

text \<open>
  The loop of \<open>_get_alternative_parsed_quantity\<close>. \<open>quantity\<close> is what \<open>get_by_name\<close>
  gave for the primary name; reading \<open>quantity.name\<close> of \<open>None\<close> raises.
\<close>

fun alternative_loop :: "quantity option \<Rightarrow> pydict \<Rightarrow> quantity list \<Rightarrow> pydict \<Rightarrow> py_error + pydict" where
  "alternative_loop quantity parsed_quantities [] inputs = Inr inputs"
| "alternative_loop quantity parsed_quantities (parsable_quantity # rest) inputs =
     (if dict_contains parsed_quantities (original_name parsable_quantity) then
        (case quantity of
           None \<Rightarrow> Inl AttributeError
         | Some q \<Rightarrow>
             alternative_loop quantity parsed_quantities rest
               (dict_set inputs (name q)
                  (dict_get parsed_quantities (original_name parsable_quantity))))
      else alternative_loop quantity parsed_quantities rest inputs)"

definition get_alternative_parsed_quantity :: "string \<Rightarrow> quantity option \<Rightarrow> parsable_quantities \<Rightarrow> pydict \<Rightarrow> py_error + pydict" where
  "get_alternative_parsed_quantity quantity_name quantity parsable_quantities parsed_quantities =
     (case get_equivalent_quantities parsable_quantities quantity_name of
        Inl e \<Rightarrow> Inl e
      | Inr equivalents \<Rightarrow> alternative_loop quantity parsed_quantities equivalents [])"

text \<open>The loop of \<open>_collect_quantity_data\<close>.\<close>

fun collect_loop :: "parsable_quantities \<Rightarrow> pydict \<Rightarrow> string list \<Rightarrow> pydict \<Rightarrow> py_error + pydict" where
  "collect_loop parsable_quantities parsed_quantities [] inputs = Inr inputs"
| "collect_loop parsable_quantities parsed_quantities (quantity_name # rest) inputs =
     (let quantity = get_by_name parsable_quantities quantity_name;
          parsed_quantity = dict_get parsed_quantities quantity_name
      in if parsed_quantity = PNone then
           (case get_alternative_parsed_quantity quantity_name quantity parsable_quantities
                   parsed_quantities of
              Inl e \<Rightarrow> Inl e
            | Inr alternative \<Rightarrow>
                collect_loop parsable_quantities parsed_quantities rest
                  (dict_update inputs alternative))
         else
           (case quantity of
              None \<Rightarrow> Inl AttributeError
            | Some q \<Rightarrow>
                collect_loop parsable_quantities parsed_quantities rest
                  (dict_set inputs (name q) parsed_quantity)))"

text \<open>
  \<open>NODES_TYPES.get(node_type)\<close> is \<open>None\<close> for a tag the table does not have, and the
  loop over \<open>None\<close> is a \<open>TypeError\<close>.
\<close>

definition collect_quantity_data :: "parsable_quantities \<Rightarrow> pydict \<Rightarrow> string option \<Rightarrow> string list option \<Rightarrow> py_error + pydict" where
  "collect_quantity_data parsable_quantities parsed_quantities node_type quantity_names =
     (case (case quantity_names of
              None \<Rightarrow> (case node_type of None \<Rightarrow> None | Some t \<Rightarrow> map_of NODES_TYPES t)
            | Some names \<Rightarrow> Some names) of
        None \<Rightarrow> Inl TypeError
      | Some names \<Rightarrow> collect_loop parsable_quantities parsed_quantities names [])"

text \<open>The loop of \<open>_get_quantities_from_file_parser\<close>; \<open>deepcopy\<close> copies a value as it is.\<close>

fun file_parser_loop :: "quantities_class \<Rightarrow> file_parser \<Rightarrow> pydict \<Rightarrow> parsable_quantities \<Rightarrow> pydict \<Rightarrow> py_error + (parsable_quantities \<times> pydict)" where
  "file_parser_loop cls fp [] parsable_quantities parsed_quantities =
     Inr (parsable_quantities, parsed_quantities)"
| "file_parser_loop cls fp ((key, v) # rest) parsable_quantities parsed_quantities =
     (let parsable_quantities' = add_parsable_quantity cls parsable_quantities key v
      in case get_quantity fp key of
           Inl e \<Rightarrow> Inl e
         | Inr parsed \<Rightarrow>
             file_parser_loop cls fp rest parsable_quantities'
               (dict_set parsed_quantities key parsed))"

definition get_quantities_from_file_parser :: "quantities_class \<Rightarrow> file_parser \<Rightarrow> py_error + (parsable_quantities \<times> pydict)" where
  "get_quantities_from_file_parser cls fp =
     file_parser_loop cls fp (parsable_items fp) (new_quantities cls) []"

text \<open>
  \<open>get_node_composer_inputs\<close>: without a file parser the registry and the table are the
  ones passed; with one, both come from the file parser.
\<close>

definition get_node_composer_inputs :: "quantities_class \<Rightarrow> parsable_quantities \<Rightarrow> pydict \<Rightarrow> file_parser option \<Rightarrow> string option \<Rightarrow> string list option \<Rightarrow> py_error + pydict" where
  "get_node_composer_inputs cls parsable_quantities parsed_quantities fp node_type quantity_names =
     (case fp of
        None \<Rightarrow>
          collect_quantity_data parsable_quantities parsed_quantities node_type quantity_names
      | Some f \<Rightarrow>
          (case get_quantities_from_file_parser cls f of
             Inl e \<Rightarrow> Inl e
           | Inr (pq, parsed) \<Rightarrow> collect_quantity_data pq parsed node_type quantity_names))"

section \<open>The parser manager (\<open>parsers/manager.py\<close>)\<close>

text \<open>
  The calculation node of the host framework, by what its two getters return: a list, or
  \<open>None\<close> when the list was never set. Adding \<open>None\<close> to a list is a \<open>TypeError\<close>.
\<close>

record calc_node =
  get_retrieve_temporary_list :: "string list option"
  get_retrieve_list :: "string list option"

text \<open>
  The three warnings the manager gives to its logger: the requested quantity has no
  parser, the files required for a quantity were not retrieved, and a file is not in the
  list of files to be retrieved.
\<close>

datatype warning =
    Not_implemented string
  | Not_retrieved string "string list"
  | Not_in_retrieve_list string

text \<open>The manager: its node, its list, and the warnings its logger has received.\<close>

record parser_manager =
  manager_node :: calc_node
  quantities_to_parse :: "string list"
  logged :: "warning list"

definition log_warning :: "parser_manager \<Rightarrow> warning \<Rightarrow> parser_manager" where
  "log_warning m w = m\<lparr>logged := logged m @ [w]\<rparr>"

fun add_quantity_to_parse :: "parser_manager \<Rightarrow> quantity list \<Rightarrow> parser_manager \<times> bool" where
  "add_quantity_to_parse m [] = (m, False)"
| "add_quantity_to_parse m (q # quantities) =
     (if is_parsable q
      then (m\<lparr>quantities_to_parse := quantities_to_parse m @ [original_name q]\<rparr>, True)
      else add_quantity_to_parse m quantities)"

text \<open>
  The loop over the missing files: \<open>not_in_retrieve_list\<close> is overwritten by every
  missing file that is not in the retrieve list.
\<close>

fun missing_loop :: "string list \<Rightarrow> string list \<Rightarrow> string option \<Rightarrow> string option" where
  "missing_loop [] retrieve_list not_in_retrieve_list = not_in_retrieve_list"
| "missing_loop (item # rest) retrieve_list not_in_retrieve_list =
     missing_loop rest retrieve_list
       (if item \<notin> set retrieve_list then Some item else not_in_retrieve_list)"

text \<open>The body of the loop for a quantity that could not be added.\<close>

definition report_missing :: "parsable_quantities \<Rightarrow> string \<Rightarrow> parser_manager \<Rightarrow> py_error + parser_manager" where
  "report_missing quantities quantity_name m =
     (case get_missing_files quantities quantity_name of
        Inl e \<Rightarrow> Inl e
      | Inr missing_files \<Rightarrow>
     (case (get_retrieve_temporary_list (manager_node m), get_retrieve_list (manager_node m)) of
        (Some temporary, Some permanent) \<Rightarrow>
          (let retrieve_list = temporary @ permanent;
               not_in_retrieve_list = missing_loop missing_files retrieve_list None;
               m1 = log_warning m (Not_retrieved quantity_name missing_files)
           in case not_in_retrieve_list of
                None \<Rightarrow> Inr m1
              | Some f \<Rightarrow> Inr (log_warning m1 (Not_in_retrieve_list f)))
      | _ \<Rightarrow> Inl TypeError))"

fun quantities_loop :: "parsable_quantities \<Rightarrow> string list \<Rightarrow> parser_manager \<Rightarrow> py_error + parser_manager" where
  "quantities_loop quantities [] m = Inr m"
| "quantities_loop quantities (quantity_name # rest) m =
     (case get_by_name quantities quantity_name of
        None \<Rightarrow> quantities_loop quantities rest (log_warning m (Not_implemented quantity_name))
      | Some _ \<Rightarrow>
     (case get_equivalent_quantities quantities quantity_name of
        Inl e \<Rightarrow> Inl e
      | Inr equivalents \<Rightarrow>
     (case add_quantity_to_parse m equivalents of
        (m1, success) \<Rightarrow>
          if success then quantities_loop quantities rest m1
          else (case report_missing quantities quantity_name m1 of
                  Inl e \<Rightarrow> Inl e
                | Inr m2 \<Rightarrow> quantities_loop quantities rest m2))))"

definition set_quantities_to_parse :: "parser_manager \<Rightarrow> string list \<Rightarrow> parsable_quantities \<Rightarrow> py_error + parser_manager" where
  "set_quantities_to_parse m requested quantities =
     quantities_loop quantities requested (m\<lparr>quantities_to_parse := []\<rparr>)"

text \<open>The method \<open>setup\<close> of the manager.\<close>

definition manager_setup :: "parser_manager \<Rightarrow> string list \<Rightarrow> parsable_quantities \<Rightarrow> py_error + parser_manager" where
  "manager_setup m requested quantities = set_quantities_to_parse m requested quantities"

section \<open>The words of the specification\<close>

text \<open>The node-type tags the specification calls supported.\<close>

definition supported_tags :: "string list" where
  "supported_tags =
     [''dict'', ''structure'', ''array'', ''array.kpoints'', ''array.trajectory'',
      ''array.bands'', ''vasp.chargedensity'', ''vasp.wavefun'']"

text \<open>The supported tags that have a dot, written with an underscore instead.\<close>

definition underscore_spellings :: "string list" where
  "underscore_spellings =
     [''array_kpoints'', ''array_trajectory'', ''array_bands'', ''vasp_chargedensity'',
      ''vasp_wavefun'']"

text \<open>
  The specification of quantity selection: a requested name the registry knows
  contributes the \<open>original_name\<close> of the first parsable quantity among its equivalents,
  in the order the registry returns them, and nothing when none is parsable; a name the
  registry does not know contributes nothing.
\<close>

definition first_parsable_name :: "quantity list \<Rightarrow> string list" where
  "first_parsable_name quantities =
     (case find is_parsable quantities of None \<Rightarrow> [] | Some q \<Rightarrow> [original_name q])"

definition selected_names :: "parsable_quantities \<Rightarrow> string \<Rightarrow> string list" where
  "selected_names quantities quantity_name =
     (case get_by_name quantities quantity_name of
        None \<Rightarrow> []
      | Some _ \<Rightarrow>
          (case get_equivalent_quantities quantities quantity_name of
             Inl _ \<Rightarrow> []
           | Inr equivalents \<Rightarrow> first_parsable_name equivalents))"

section \<open>Example inputs\<close>

text \<open>
  A registry in which the structure can come from three files: the quantity
  \<open>structure\<close> itself, whose file was not retrieved, and its two alternatives, which are
  parsable. The eigenvalues have no alternative and need two files that are missing.
\<close>

definition structure_quantity :: quantity where
  "structure_quantity = \<lparr>name = ''structure'', original_name = ''structure'', is_parsable = False\<rparr>"

definition poscar_quantity :: quantity where
  "poscar_quantity =
     \<lparr>name = ''structure'', original_name = ''poscar-structure'', is_parsable = True\<rparr>"

definition outcar_quantity :: quantity where
  "outcar_quantity =
     \<lparr>name = ''structure'', original_name = ''outcar-structure'', is_parsable = True\<rparr>"

definition eigenvalues_quantity :: quantity where
  "eigenvalues_quantity =
     \<lparr>name = ''eigenvalues'', original_name = ''eigenvalues'', is_parsable = False\<rparr>"

definition example_quantities :: parsable_quantities where
  "example_quantities =
     \<lparr>get_by_name = (\<lambda>n.
          if n = ''structure'' then Some structure_quantity
          else if n = ''poscar-structure'' then Some poscar_quantity
          else if n = ''outcar-structure'' then Some outcar_quantity
          else if n = ''eigenvalues'' then Some eigenvalues_quantity
          else None),
      get_equivalent_quantities = (\<lambda>n.
          if n = ''structure'' \<or> n = ''poscar-structure'' \<or> n = ''outcar-structure''
          then Inr [structure_quantity, poscar_quantity, outcar_quantity]
          else if n = ''eigenvalues'' then Inr [eigenvalues_quantity]
          else Inl KeyError),
      get_missing_files = (\<lambda>n.
          if n = ''structure'' then Inr [''vasprun.xml'']
          else if n = ''eigenvalues'' then Inr [''vasprun.xml'', ''EIGENVAL'']
          else Inr [])\<rparr>"

text \<open>A registry class whose constructor gives the example registry and keeps it.\<close>

definition example_class :: quantities_class where
  "example_class =
     \<lparr>new_quantities = example_quantities, add_parsable_quantity = (\<lambda>pq key v. pq)\<rparr>"

text \<open>
  Two parsed-quantity tables. In the first the structure was looked for and not found:
  its key is there with the value \<open>None\<close>. In the second the structure was parsed from
  \<open>POSCAR\<close>, and looked for in \<open>OUTCAR\<close> and not found.
\<close>

definition failed_structure_table :: pydict where
  "failed_structure_table = [(''structure'', PNone)]"

definition overwritten_structure_table :: pydict where
  "overwritten_structure_table =
     [(''poscar-structure'', PStr ''cell of POSCAR''), (''outcar-structure'', PNone)]"

text \<open>A manager whose job retrieves only \<open>OUTCAR\<close>, before any setup.\<close>

definition example_manager :: parser_manager where
  "example_manager =
     \<lparr>manager_node = \<lparr>get_retrieve_temporary_list = Some [], get_retrieve_list = Some [''OUTCAR'']\<rparr>,
      quantities_to_parse = [], logged = []\<rparr>"

text \<open>An automatic k-point mesh as the k-points parser delivers it.\<close>

definition example_kpoints :: pyval where
  "example_kpoints =
     PDict [(''mode'', PStr ''automatic''),
            (''divisions'', PList [PInt 2, PInt 2, PInt 2]),
            (''shifts'', PList [PInt 0, PInt 0, PInt 0])]"


section \<open>Evaluation and helper lemmas\<close>

lemmas value_defs =
  dict_subscript_def subscript_def py_get_def py_items_def index0_def py_iter_def
  get_direct_def get_point_tolist_def get_weight_def dict_get_def dict_contains_def

lemmas host_defs =
  get_data_class_def new_node_def new_file_node_def update_dict_def set_cell_def
  append_atom_def set_array_def set_attribute_def set_kpoints_def set_kpoints_mesh_def
  set_kpointsdata_def set_bands_def new_data_node_def

lemmas dispatch_defs = compose_def composer_methods_def replace_dot_def returns_node_def

section \<open>Node composition: the claims\<close>

text \<open>
  Claim C8. Composing node type \<open>array.kpoints\<close> from an input whose mode is
  \<open>automatic\<close>, with divisions \<open>[2,2,2]\<close> and shifts \<open>[0,0,0]\<close>, returns a k-points
  node that holds a mesh and no explicit list; the mesh is exactly \<open>[2,2,2]\<close> and the
  offset exactly \<open>[0,0,0]\<close>.
\<close>

theorem compose_kpoints_automatic_mesh:
  "compose ''array.kpoints''
     [(''kpoints'',
       PDict [(''mode'', PStr ''automatic''),
              (''divisions'', PList [PInt 2, PInt 2, PInt 2]),
              (''shifts'', PList [PInt 0, PInt 0, PInt 0])])]
   = Inr (Some (KpointsData None
           (Some (PList [PInt 2, PInt 2, PInt 2], PList [PInt 0, PInt 0, PInt 0]))))"
  by (simp add: dispatch_defs compose_array_kpoints_def kpoints_automatic_def host_defs
      value_defs)

text \<open>
  Claim C9. Composing node type \<open>dict\<close> from the inputs table
  \<open>{"total_energies": {"energy": -1.0}}\<close> returns a dictionary node whose stored content
  equals that inputs table.
\<close>

theorem compose_dict_content:
  "compose ''dict'' [(''total_energies'', PDict [(''energy'', PFloat (- 1))])]
   = Inr (Some (DictData [(''total_energies'', PDict [(''energy'', PFloat (- 1))])]))"
  by (simp add: dispatch_defs compose_dict_def host_defs)





text \<open>
  The two loops over a binary node's inputs end with the node built from the value of
  the last key, whatever the node was before.
\<close>

lemma key_has_value:
  "key \<in> fst ` set inputs \<Longrightarrow> \<exists>v. map_of inputs key = Some v"
  by (cases "map_of inputs key") (simp_all add: map_of_eq_None_iff)

lemma wavefun_loop_last:
  "set keys \<subseteq> fst ` set inputs \<Longrightarrow>
   wavefun_loop ''vasp.wavefun'' inputs keys n =
     Inr (if keys = [] then n else Some (WavefunData (the (map_of inputs (last keys)))))"
proof (induction keys arbitrary: n)
  case Nil
  then show ?case by simp
next
  case (Cons key keys)
  from Cons.prems have "key \<in> fst ` set inputs" by simp
  from key_has_value [OF this] obtain v where v: "map_of inputs key = Some v" ..
  from Cons.prems have "set keys \<subseteq> fst ` set inputs" by simp
  from Cons.IH [OF this] v show ?case
    by (simp add: get_data_class_def new_file_node_def dict_subscript_def)
qed

lemma chargedensity_loop_last:
  "set keys \<subseteq> fst ` set inputs \<Longrightarrow>
   chargedensity_loop ''vasp.chargedensity'' inputs keys n =
     Inr (if keys = [] then n
          else Some (ChargedensityData (the (map_of inputs (last keys)))))"
proof (induction keys arbitrary: n)
  case Nil
  then show ?case by simp
next
  case (Cons key keys)
  from Cons.prems have "key \<in> fst ` set inputs" by simp
  from key_has_value [OF this] obtain v where v: "map_of inputs key = Some v" ..
  from Cons.prems have "set keys \<subseteq> fst ` set inputs" by simp
  from Cons.IH [OF this] v show ?case
    by (simp add: get_data_class_def new_file_node_def dict_subscript_def)
qed

lemma last_key_value:
  assumes "inputs \<noteq> []"
  shows "\<exists>v. dict_subscript inputs (last (map fst inputs)) = Inr v
           \<and> map_of inputs (last (map fst inputs)) = Some v"
proof -
  from assms have "last (map fst inputs) \<in> set (map fst inputs)"
    by (intro last_in_set) simp
  then have "last (map fst inputs) \<in> fst ` set inputs"
    by simp
  from key_has_value [OF this]
  obtain v where "map_of inputs (last (map fst inputs)) = Some v" ..
  then show ?thesis by (simp add: dict_subscript_def)
qed

text \<open>
  Claim C10. Composing \<open>vasp.wavefun\<close> or \<open>vasp.chargedensity\<close> from an empty inputs
  table returns \<open>None\<close>; from a table with exactly one entry it returns the node built
  from that entry's value; and from any table that is not empty it returns the node built
  from \<open>inputs[key]\<close> for the last key the loop visits.
\<close>

theorem blob_last_key:
  "compose ''vasp.wavefun'' [] = Inr None
   \<and> compose ''vasp.chargedensity'' [] = Inr None
   \<and> compose ''vasp.wavefun'' [(key, v)] = Inr (Some (WavefunData v))
   \<and> compose ''vasp.chargedensity'' [(key, v)] = Inr (Some (ChargedensityData v))
   \<and> (inputs \<noteq> [] \<longrightarrow>
        (\<exists>w. dict_subscript inputs (last (map fst inputs)) = Inr w
           \<and> compose ''vasp.wavefun'' inputs = Inr (Some (WavefunData w))
           \<and> compose ''vasp.chargedensity'' inputs = Inr (Some (ChargedensityData w))))"
proof -
  have w: "compose ''vasp.wavefun'' i = wavefun_loop ''vasp.wavefun'' i (map fst i) None"
    for i
    by (simp add: dispatch_defs compose_vasp_wavefun_def)
  have c: "compose ''vasp.chargedensity'' i
             = chargedensity_loop ''vasp.chargedensity'' i (map fst i) None" for i
    by (simp add: dispatch_defs compose_vasp_chargedensity_def)
  have s: "set (map fst i) \<subseteq> fst ` set i" for i :: pydict
    by simp
  show ?thesis
    unfolding w c wavefun_loop_last [OF s] chargedensity_loop_last [OF s]
    using last_key_value [of inputs] by auto
qed

theorem blob_last_key_witness:
  "dict_subscript [(''chgcar'', PStr ''CHGCAR''), (''wavecar'', PStr ''WAVECAR'')]
      (last (map fst [(''chgcar'', PStr ''CHGCAR''), (''wavecar'', PStr ''WAVECAR'')]))
     = Inr (PStr ''WAVECAR'')
   \<and> compose ''vasp.wavefun'' [(''chgcar'', PStr ''CHGCAR''), (''wavecar'', PStr ''WAVECAR'')]
     = Inr (Some (WavefunData (PStr ''WAVECAR'')))
   \<and> compose ''vasp.chargedensity''
        [(''chgcar'', PStr ''CHGCAR''), (''wavecar'', PStr ''WAVECAR'')]
     = Inr (Some (ChargedensityData (PStr ''WAVECAR'')))"
proof -
  let ?inputs = "[(''chgcar'', PStr ''CHGCAR''), (''wavecar'', PStr ''WAVECAR'')]"
  have ne: "?inputs \<noteq> []"
    by simp
  have sub: "dict_subscript ?inputs (last (map fst ?inputs)) = Inr (PStr ''WAVECAR'')"
    by (simp add: dict_subscript_def)
  have "?inputs \<noteq> [] \<longrightarrow>
        (\<exists>w. dict_subscript ?inputs (last (map fst ?inputs)) = Inr w
           \<and> compose ''vasp.wavefun'' ?inputs = Inr (Some (WavefunData w))
           \<and> compose ''vasp.chargedensity'' ?inputs = Inr (Some (ChargedensityData w)))"
    by (rule blob_last_key [of "''wavecar''" "PStr ''WAVECAR''" ?inputs,
          THEN conjunct2, THEN conjunct2, THEN conjunct2, THEN conjunct2])
  from this [THEN mp, OF ne]
  obtain w where w: "dict_subscript ?inputs (last (map fst ?inputs)) = Inr w"
      "compose ''vasp.wavefun'' ?inputs = Inr (Some (WavefunData w))"
      "compose ''vasp.chargedensity'' ?inputs = Inr (Some (ChargedensityData w))"
    by (elim exE conjE)
  from w(1) have "w = PStr ''WAVECAR''"
    unfolding sub by (simp only: sum.inject)
  with w(2,3) sub show ?thesis
    by (intro conjI) (simp_all only:)
qed

text \<open>
  Which tags reach a composer method: \<open>replace_dot\<close> maps a dotted tag and its
  underscore spelling to the same method name.
\<close>

lemma replace_dot_Nil: "replace_dot s = [] \<longleftrightarrow> s = []"
  by (simp add: replace_dot_def)

lemma replace_dot_Cons:
  "replace_dot s = c # cs \<longleftrightarrow>
     (\<exists>d ds. s = d # ds \<and> (if d = CHR ''.'' then CHR ''_'' else d) = c \<and> replace_dot ds = cs)"
  by (cases s) (auto simp: replace_dot_def)

lemma method_names:
  "map_of composer_methods (''_compose_'' @ m) = Some f \<Longrightarrow>
     m = ''dict'' \<or> m = ''structure'' \<or> m = ''array'' \<or> m = ''vasp_wavefun''
     \<or> m = ''vasp_chargedensity'' \<or> m = ''array_bands'' \<or> m = ''array_kpoints''
     \<or> m = ''array_trajectory''"
  by (simp add: composer_methods_def split: if_splits)

lemma rd_dict: "replace_dot t = ''dict'' \<Longrightarrow> t = ''dict''"
  by (auto simp: replace_dot_Cons replace_dot_Nil split: if_splits)

lemma rd_structure: "replace_dot t = ''structure'' \<Longrightarrow> t = ''structure''"
  by (auto simp: replace_dot_Cons replace_dot_Nil split: if_splits)

lemma rd_array: "replace_dot t = ''array'' \<Longrightarrow> t = ''array''"
  by (auto simp: replace_dot_Cons replace_dot_Nil split: if_splits)

lemma rd_wavefun: "replace_dot t = ''vasp_wavefun'' \<Longrightarrow> t = ''vasp.wavefun'' \<or> t = ''vasp_wavefun''"
  by (auto simp: replace_dot_Cons replace_dot_Nil split: if_splits)

lemma rd_chargedensity: "replace_dot t = ''vasp_chargedensity'' \<Longrightarrow> t = ''vasp.chargedensity'' \<or> t = ''vasp_chargedensity''"
  by (auto simp: replace_dot_Cons replace_dot_Nil split: if_splits)

lemma rd_bands: "replace_dot t = ''array_bands'' \<Longrightarrow> t = ''array.bands'' \<or> t = ''array_bands''"
  by (auto simp: replace_dot_Cons replace_dot_Nil split: if_splits)

lemma rd_kpoints: "replace_dot t = ''array_kpoints'' \<Longrightarrow> t = ''array.kpoints'' \<or> t = ''array_kpoints''"
  by (auto simp: replace_dot_Cons replace_dot_Nil split: if_splits)

lemma rd_trajectory: "replace_dot t = ''array_trajectory'' \<Longrightarrow> t = ''array.trajectory'' \<or> t = ''array_trajectory''"
  by (auto simp: replace_dot_Cons replace_dot_Nil split: if_splits)

lemma dispatch_tags:
  assumes "map_of composer_methods (''_compose_'' @ replace_dot t) = Some f"
  shows "t \<in> set supported_tags \<or> t \<in> set underscore_spellings"
proof -
  from method_names [OF assms]
  consider "replace_dot t = ''dict''" | "replace_dot t = ''structure''" | "replace_dot t = ''array''"
    | "replace_dot t = ''vasp_wavefun''" | "replace_dot t = ''vasp_chargedensity''"
    | "replace_dot t = ''array_bands''" | "replace_dot t = ''array_kpoints''"
    | "replace_dot t = ''array_trajectory''"
    by blast
  then show ?thesis
  proof cases
    case 1 from rd_dict [OF this] show ?thesis by (simp add: supported_tags_def)
  next
    case 2 from rd_structure [OF this] show ?thesis by (simp add: supported_tags_def)
  next
    case 3 from rd_array [OF this] show ?thesis by (simp add: supported_tags_def)
  next
    case 4 from rd_wavefun [OF this] show ?thesis
      by (auto simp: supported_tags_def underscore_spellings_def)
  next
    case 5 from rd_chargedensity [OF this] show ?thesis
      by (auto simp: supported_tags_def underscore_spellings_def)
  next
    case 6 from rd_bands [OF this] show ?thesis
      by (auto simp: supported_tags_def underscore_spellings_def)
  next
    case 7 from rd_kpoints [OF this] show ?thesis
      by (auto simp: supported_tags_def underscore_spellings_def)
  next
    case 8 from rd_trajectory [OF this] show ?thesis
      by (auto simp: supported_tags_def underscore_spellings_def)
  qed
qed

text \<open>
  The underscore spellings find their method, and the method asks for the data class of
  the tag as it was written.
\<close>

lemma compose_array_kpoints_us: "compose ''array_kpoints'' inputs = Inl MissingEntryPointError"
  by (simp add: dispatch_defs compose_array_kpoints_def new_data_node_def get_data_class_def)

lemma compose_array_trajectory_us: "compose ''array_trajectory'' inputs = Inl MissingEntryPointError"
  by (simp add: dispatch_defs compose_array_trajectory_def new_data_node_def get_data_class_def)

lemma compose_array_bands_us: "compose ''array_bands'' inputs = Inl MissingEntryPointError"
  by (simp add: dispatch_defs compose_array_bands_def new_data_node_def get_data_class_def)

lemma compose_vasp_wavefun_us:
  "compose ''vasp_wavefun'' inputs = (if inputs = [] then Inr None else Inl MissingEntryPointError)"
  by (cases inputs) (simp_all add: dispatch_defs compose_vasp_wavefun_def get_data_class_def)

lemma compose_vasp_chargedensity_us:
  "compose ''vasp_chargedensity'' inputs = (if inputs = [] then Inr None else Inl MissingEntryPointError)"
  by (cases inputs) (simp_all add: dispatch_defs compose_vasp_chargedensity_def get_data_class_def)

lemma compose_no_method:
  "map_of composer_methods (''_compose_'' @ replace_dot t) = None \<Longrightarrow> compose t inputs = Inl AttributeError"
  by (simp add: compose_def)

text \<open>
  Claim C6, amended. For every node-type tag that is not one of the supported tags,
  \<open>compose\<close> never returns a node. When the tag is not the underscore spelling of a
  supported tag either, the method lookup fails with an \<open>AttributeError\<close>. For the five
  underscore spellings the method is found and the lookup of the data class fails
  instead, except that \<open>vasp_wavefun\<close> and \<open>vasp_chargedensity\<close> with an empty inputs
  table return \<open>None\<close> and raise nothing.
\<close>

theorem compose_unsupported_tag:
  assumes "node_type \<notin> set supported_tags"
  shows "(\<forall>n. compose node_type inputs \<noteq> Inr (Some n))
       \<and> (node_type \<notin> set underscore_spellings \<longrightarrow> compose node_type inputs = Inl AttributeError)
       \<and> (node_type \<in> set underscore_spellings \<longrightarrow>
            compose node_type inputs =
              (if inputs = [] \<and> (node_type = ''vasp_wavefun'' \<or> node_type = ''vasp_chargedensity'')
               then Inr None else Inl MissingEntryPointError))"
proof (cases "node_type \<in> set underscore_spellings")
  case True
  then have "node_type = ''array_kpoints'' \<or> node_type = ''array_trajectory''
    \<or> node_type = ''array_bands'' \<or> node_type = ''vasp_chargedensity''
    \<or> node_type = ''vasp_wavefun''"
    by (simp add: underscore_spellings_def)
  then show ?thesis
  proof (elim disjE)
    assume "node_type = ''array_kpoints''"
    with True show ?thesis by (simp add: compose_array_kpoints_us)
  next
    assume "node_type = ''array_trajectory''"
    with True show ?thesis by (simp add: compose_array_trajectory_us)
  next
    assume "node_type = ''array_bands''"
    with True show ?thesis by (simp add: compose_array_bands_us)
  next
    assume "node_type = ''vasp_chargedensity''"
    with True show ?thesis by (simp add: compose_vasp_chargedensity_us)
  next
    assume "node_type = ''vasp_wavefun''"
    with True show ?thesis by (simp add: compose_vasp_wavefun_us)
  qed
next
  case False
  have "map_of composer_methods (''_compose_'' @ replace_dot node_type) = None"
  proof (cases "map_of composer_methods (''_compose_'' @ replace_dot node_type)")
    case None then show ?thesis .
  next
    case (Some f)
    from dispatch_tags [OF this] assms False show ?thesis by simp
  qed
  from compose_no_method [OF this] False show ?thesis by simp
qed

text \<open>
  The claim as stated fails: \<open>vasp_wavefun\<close> is not a supported tag, and composing it
  from the empty inputs table returns \<open>None\<close> without an error.
\<close>

theorem compose_unsupported_tag_counterexample:
  "''vasp_wavefun'' \<notin> set supported_tags \<and> compose ''vasp_wavefun'' [] = Inr None"
  by (simp add: supported_tags_def dispatch_defs compose_vasp_wavefun_def)

theorem compose_unsupported_tag_witness:
  "''band_structure'' \<notin> set supported_tags \<and> ''band_structure'' \<notin> set underscore_spellings
   \<and> compose ''band_structure'' [(''kpoints'', example_kpoints)] = Inl AttributeError"
proof -
  have a: "''band_structure'' \<notin> set supported_tags" by (simp add: supported_tags_def)
  have b: "''band_structure'' \<notin> set underscore_spellings" by (simp add: underscore_spellings_def)
  from compose_unsupported_tag [OF a, of "[(''kpoints'', example_kpoints)]", THEN conjunct2, THEN conjunct1, THEN mp, OF b] a b
  show ?thesis by (intro conjI)
qed

section \<open>The parser manager: the claims\<close>

text \<open>
  Adding a quantity or one of its alternatives appends the name the specification
  selects, and succeeds exactly when some equivalent is parsable.
\<close>

lemma add_quantity_to_parse_eq:
  "add_quantity_to_parse m quantities =
     (m\<lparr>quantities_to_parse := quantities_to_parse m @ first_parsable_name quantities\<rparr>,
      find is_parsable quantities \<noteq> None)"
  by (induction quantities) (simp_all add: first_parsable_name_def)

text \<open>Reporting the missing files only logs; what it logs does not depend on the log.\<close>

lemma report_missing_frame:
  assumes "report_missing quantities n m = Inr m'"
  shows "quantities_to_parse m' = quantities_to_parse m \<and> manager_node m' = manager_node m
         \<and> set (logged m) \<subseteq> set (logged m')"
  using assms
  by (auto simp: report_missing_def log_warning_def Let_def split: sum.splits option.splits)

lemma report_missing_log_free:
  assumes "manager_node m = manager_node m'"
  shows "rel_sum (=) (\<lambda>a b. manager_node a = manager_node b
                         \<and> quantities_to_parse a = quantities_to_parse m
                         \<and> quantities_to_parse b = quantities_to_parse m')
           (report_missing quantities n m) (report_missing quantities n m')"
  using assms
  by (auto simp: report_missing_def log_warning_def Let_def split: sum.splits option.splits)

text \<open>The loop over the requested names, taken apart at any point.\<close>

lemma quantities_loop_append:
  "quantities_loop quantities (xs @ ys) m =
     (case quantities_loop quantities xs m of
        Inl e \<Rightarrow> Inl e
      | Inr m' \<Rightarrow> quantities_loop quantities ys m')"
  by (induction xs arbitrary: m)
     (auto simp: add_quantity_to_parse_eq split: option.splits sum.splits)

text \<open>
  A run that ends without an exception has appended, for every requested name in turn,
  the names the specification selects, and has only added to the log.
\<close>

lemma quantities_loop_selected:
  "quantities_loop quantities names m = Inr m' \<Longrightarrow>
     quantities_to_parse m' = quantities_to_parse m @ concat (map (selected_names quantities) names)
     \<and> manager_node m' = manager_node m \<and> set (logged m) \<subseteq> set (logged m')"
proof (induction names arbitrary: m)
  case Nil
  then show ?case by simp
next
  case (Cons n names)
  show ?case
  proof (cases "get_by_name quantities n")
    case None
    with Cons.prems have "quantities_loop quantities names (log_warning m (Not_implemented n)) = Inr m'"
      by simp
    from Cons.IH [OF this] None show ?thesis
      by (simp add: selected_names_def log_warning_def)
  next
    case (Some q)
    with Cons.prems obtain equivalents where eq: "get_equivalent_quantities quantities n = Inr equivalents"
      by (cases "get_equivalent_quantities quantities n") simp_all
    let ?m1 = "m\<lparr>quantities_to_parse := quantities_to_parse m @ first_parsable_name equivalents\<rparr>"
    have sel: "selected_names quantities n = first_parsable_name equivalents"
      using Some eq by (simp add: selected_names_def)
    show ?thesis
    proof (cases "find is_parsable equivalents")
      case None
      with Cons.prems Some eq obtain m2 where m2: "report_missing quantities n ?m1 = Inr m2"
        and rest: "quantities_loop quantities names m2 = Inr m'"
        by (cases "report_missing quantities n ?m1") (simp_all add: add_quantity_to_parse_eq)
      from report_missing_frame [OF m2] Cons.IH [OF rest] sel show ?thesis
        by auto
    next
      case (Some p)
      with Cons.prems \<open>get_by_name quantities n = Some q\<close> eq
      have "quantities_loop quantities names ?m1 = Inr m'"
        by (simp add: add_quantity_to_parse_eq)
      from Cons.IH [OF this] sel show ?thesis by simp
    qed
  qed
qed

text \<open>What is in the log has no influence on the exceptions or on the list.\<close>

lemma quantities_loop_log_free:
  "manager_node m = manager_node m' \<Longrightarrow> quantities_to_parse m = quantities_to_parse m' \<Longrightarrow>
   rel_sum (=) (\<lambda>a b. quantities_to_parse a = quantities_to_parse b)
     (quantities_loop quantities names m) (quantities_loop quantities names m')"
proof (induction names arbitrary: m m')
  case Nil
  then show ?case by simp
next
  case (Cons n names)
  show ?case
  proof (cases "get_by_name quantities n")
    case None
    have "rel_sum (=) (\<lambda>a b. quantities_to_parse a = quantities_to_parse b)
        (quantities_loop quantities names (log_warning m (Not_implemented n)))
        (quantities_loop quantities names (log_warning m' (Not_implemented n)))"
      using Cons.prems by (intro Cons.IH) (simp_all add: log_warning_def)
    with None show ?thesis by simp
  next
    case (Some q)
    show ?thesis
    proof (cases "get_equivalent_quantities quantities n")
      case (Inl e)
      with Some show ?thesis by simp
    next
      case (Inr equivalents)
      let ?m1 = "m\<lparr>quantities_to_parse := quantities_to_parse m @ first_parsable_name equivalents\<rparr>"
      let ?m1' = "m'\<lparr>quantities_to_parse := quantities_to_parse m' @ first_parsable_name equivalents\<rparr>"
      show ?thesis
      proof (cases "find is_parsable equivalents")
        case None
        have n1: "manager_node ?m1 = manager_node ?m1'" using Cons.prems by simp
        have q1: "quantities_to_parse ?m1 = quantities_to_parse ?m1'" using Cons.prems by simp
        note rm = report_missing_log_free [OF n1, of quantities n]
        show ?thesis
        proof (cases "report_missing quantities n ?m1")
          case (Inl e)
          with rm have "report_missing quantities n ?m1' = Inl e"
            by (cases "report_missing quantities n ?m1'") simp_all
          with Inl Some Inr None show ?thesis by (simp add: add_quantity_to_parse_eq)
        next
          case a: (Inr a)
          with rm obtain b where b: "report_missing quantities n ?m1' = Inr b"
            and ab: "manager_node a = manager_node b"
              "quantities_to_parse a = quantities_to_parse ?m1"
              "quantities_to_parse b = quantities_to_parse ?m1'"
            by (cases "report_missing quantities n ?m1'") simp_all
          from ab q1 have "rel_sum (=) (\<lambda>a b. quantities_to_parse a = quantities_to_parse b)
             (quantities_loop quantities names a) (quantities_loop quantities names b)"
            by (intro Cons.IH) simp_all
          with a b Some Inr None show ?thesis by (simp add: add_quantity_to_parse_eq)
        qed
      next
        case (Some p)
        have "rel_sum (=) (\<lambda>a b. quantities_to_parse a = quantities_to_parse b)
             (quantities_loop quantities names ?m1) (quantities_loop quantities names ?m1')"
          using Cons.prems by (intro Cons.IH) simp_all
        with Some Inr \<open>get_by_name quantities n = Some q\<close> show ?thesis
          by (simp add: add_quantity_to_parse_eq)
      qed
    qed
  qed
qed


text \<open>
  The loop raises nothing when the registry answers for every known name and the job has
  both of its retrieve lists.
\<close>

lemma report_missing_returns:
  assumes "get_missing_files quantities n = Inr fs"
      and "get_retrieve_temporary_list (manager_node m) \<noteq> None"
      and "get_retrieve_list (manager_node m) \<noteq> None"
  shows "\<exists>m'. report_missing quantities n m = Inr m'"
  using assms
  by (auto simp: report_missing_def Let_def split: option.splits)

lemma quantities_loop_returns:
  assumes "\<forall>n\<in>set names. get_by_name quantities n \<noteq> None \<longrightarrow>
             (\<exists>equivalents. get_equivalent_quantities quantities n = Inr equivalents)
             \<and> (\<exists>fs. get_missing_files quantities n = Inr fs)"
      and "get_retrieve_temporary_list (manager_node m) \<noteq> None"
      and "get_retrieve_list (manager_node m) \<noteq> None"
  shows "\<exists>m'. quantities_loop quantities names m = Inr m'"
  using assms
proof (induction names arbitrary: m)
  case Nil
  then show ?case by simp
next
  case (Cons n names)
  from Cons.prems(1) have rest: "\<forall>n\<in>set names. get_by_name quantities n \<noteq> None \<longrightarrow>
             (\<exists>equivalents. get_equivalent_quantities quantities n = Inr equivalents)
             \<and> (\<exists>fs. get_missing_files quantities n = Inr fs)"
    by simp
  show ?case
  proof (cases "get_by_name quantities n")
    case None
    have "\<exists>m'. quantities_loop quantities names (log_warning m (Not_implemented n)) = Inr m'"
      using Cons.prems(2,3) by (intro Cons.IH [OF rest]) (simp_all add: log_warning_def)
    with None show ?thesis by simp
  next
    case (Some q)
    with Cons.prems(1) obtain equivalents fs
      where eq: "get_equivalent_quantities quantities n = Inr equivalents"
        and fs: "get_missing_files quantities n = Inr fs"
      by auto
    let ?m1 = "m\<lparr>quantities_to_parse := quantities_to_parse m @ first_parsable_name equivalents\<rparr>"
    show ?thesis
    proof (cases "find is_parsable equivalents")
      case None
      have "\<exists>m2. report_missing quantities n ?m1 = Inr m2"
        using Cons.prems(2,3) by (intro report_missing_returns [OF fs]) simp_all
      then obtain m2 where m2: "report_missing quantities n ?m1 = Inr m2" ..
      from report_missing_frame [OF m2] have "manager_node m2 = manager_node m" by simp
      with Cons.prems(2,3) have "\<exists>m'. quantities_loop quantities names m2 = Inr m'"
        by (intro Cons.IH [OF rest]) simp_all
      with m2 None Some eq show ?thesis by (simp add: add_quantity_to_parse_eq)
    next
      case found: (Some p)
      have "\<exists>m'. quantities_loop quantities names ?m1 = Inr m'"
        using Cons.prems(2,3) by (intro Cons.IH [OF rest]) simp_all
      with found Some eq show ?thesis by (simp add: add_quantity_to_parse_eq)
    qed
  qed
qed

text \<open>
  Claim C4. For every requested quantity the registry knows, \<open>setup\<close> appends to the
  quantities-to-parse list the \<open>original_name\<close> of the first quantity, in the order
  \<open>get_equivalent_quantities\<close> returns them, whose \<open>is_parsable\<close> flag is true, and
  nothing else: the list after \<open>setup\<close> is the concatenation, over the requested names
  in order, of what the specification selects, which is at most one name each. The run
  ends without an exception whenever the registry answers for every known requested name
  and both retrieve lists of the job are set.
\<close>

theorem setup_selects_first_parsable:
  "(\<forall>r. manager_setup m requested quantities = Inr r \<longrightarrow>
        quantities_to_parse r = concat (map (selected_names quantities) requested))
   \<and> (\<forall>n. length (selected_names quantities n) \<le> 1)
   \<and> ((\<forall>n\<in>set requested. get_by_name quantities n \<noteq> None \<longrightarrow>
             (\<exists>equivalents. get_equivalent_quantities quantities n = Inr equivalents)
             \<and> (\<exists>fs. get_missing_files quantities n = Inr fs))
        \<and> get_retrieve_temporary_list (manager_node m) \<noteq> None
        \<and> get_retrieve_list (manager_node m) \<noteq> None
       \<longrightarrow> (\<exists>r. manager_setup m requested quantities = Inr r))"
proof (intro conjI allI impI)
  fix r
  assume "manager_setup m requested quantities = Inr r"
  then have "quantities_loop quantities requested (m\<lparr>quantities_to_parse := []\<rparr>) = Inr r"
    by (simp add: manager_setup_def set_quantities_to_parse_def)
  from quantities_loop_selected [OF this]
  show "quantities_to_parse r = concat (map (selected_names quantities) requested)"
    by simp
next
  fix n
  show "length (selected_names quantities n) \<le> 1"
    by (simp add: selected_names_def first_parsable_name_def split: option.splits sum.splits)
next
  assume a: "(\<forall>n\<in>set requested. get_by_name quantities n \<noteq> None \<longrightarrow>
             (\<exists>equivalents. get_equivalent_quantities quantities n = Inr equivalents)
             \<and> (\<exists>fs. get_missing_files quantities n = Inr fs))
        \<and> get_retrieve_temporary_list (manager_node m) \<noteq> None
        \<and> get_retrieve_list (manager_node m) \<noteq> None"
  have "\<exists>r. quantities_loop quantities requested (m\<lparr>quantities_to_parse := []\<rparr>) = Inr r"
    using a by (intro quantities_loop_returns) simp_all
  then show "\<exists>r. manager_setup m requested quantities = Inr r"
    by (simp add: manager_setup_def set_quantities_to_parse_def)
qed

text \<open>The example run: one parsable alternative, one unknown name, one quantity without files.\<close>

lemmas example_defs =
  example_quantities_def example_manager_def structure_quantity_def poscar_quantity_def
  outcar_quantity_def eigenvalues_quantity_def

lemmas manager_defs =
  manager_setup_def set_quantities_to_parse_def report_missing_def log_warning_def Let_def

lemma example_setup:
  "manager_setup example_manager [''structure'', ''forces'', ''eigenvalues''] example_quantities
   = Inr (example_manager\<lparr>quantities_to_parse := [''poscar-structure''],
        logged := [Not_implemented ''forces'',
                   Not_retrieved ''eigenvalues'' [''vasprun.xml'', ''EIGENVAL''],
                   Not_in_retrieve_list ''EIGENVAL'']\<rparr>)"
  by (simp add: manager_defs example_defs)

theorem setup_selects_first_parsable_witness:
  "manager_setup example_manager [''structure'', ''forces'', ''eigenvalues''] example_quantities
   = Inr (example_manager\<lparr>quantities_to_parse := [''poscar-structure''],
        logged := [Not_implemented ''forces'',
                   Not_retrieved ''eigenvalues'' [''vasprun.xml'', ''EIGENVAL''],
                   Not_in_retrieve_list ''EIGENVAL'']\<rparr>)
   \<and> concat (map (selected_names example_quantities) [''structure'', ''forces'', ''eigenvalues''])
     = [''poscar-structure'']"
proof -
  note run = example_setup
  from setup_selects_first_parsable [of example_manager
      "[''structure'', ''forces'', ''eigenvalues'']" example_quantities,
      THEN conjunct1, rule_format, OF run]
  have "concat (map (selected_names example_quantities) [''structure'', ''forces'', ''eigenvalues''])
     = [''poscar-structure'']"
    by simp
  with run show ?thesis by (intro conjI)
qed

text \<open>
  Claim C3. For every requested quantity name the registry does not know: if \<open>setup\<close>
  on the other requested names raises no exception, then \<open>setup\<close> with the unknown name
  among them raises none either, ends with the same quantities-to-parse list as without
  it (the name adds nothing and the names after it are processed), and has logged the
  warning that the quantity has no parser.
\<close>

theorem unknown_quantity_skipped:
  assumes "get_by_name quantities n = None"
      and "manager_setup m (pre @ post) quantities = Inr r"
  shows "\<exists>r'. manager_setup m (pre @ n # post) quantities = Inr r'
            \<and> quantities_to_parse r' = quantities_to_parse r
            \<and> Not_implemented n \<in> set (logged r')"
proof -
  let ?m0 = "m\<lparr>quantities_to_parse := []\<rparr>"
  from assms(2) have "quantities_loop quantities (pre @ post) ?m0 = Inr r"
    by (simp add: manager_setup_def set_quantities_to_parse_def)
  then obtain m1 where m1: "quantities_loop quantities pre ?m0 = Inr m1"
    and post: "quantities_loop quantities post m1 = Inr r"
    by (cases "quantities_loop quantities pre ?m0") (simp_all add: quantities_loop_append)
  let ?m2 = "log_warning m1 (Not_implemented n)"
  have "rel_sum (=) (\<lambda>a b. quantities_to_parse a = quantities_to_parse b)
          (quantities_loop quantities post m1) (quantities_loop quantities post ?m2)"
    by (intro quantities_loop_log_free) (simp_all add: log_warning_def)
  with post obtain r' where r': "quantities_loop quantities post ?m2 = Inr r'"
    and same: "quantities_to_parse r = quantities_to_parse r'"
    by (cases "quantities_loop quantities post ?m2") simp_all
  from quantities_loop_selected [OF r'] have "Not_implemented n \<in> set (logged r')"
    by (auto simp: log_warning_def)
  moreover have "manager_setup m (pre @ n # post) quantities = Inr r'"
    using m1 r' assms(1)
    by (simp add: manager_setup_def set_quantities_to_parse_def quantities_loop_append)
  ultimately show ?thesis using same by simp
qed

theorem unknown_quantity_skipped_witness:
  "get_by_name example_quantities ''forces'' = None
   \<and> (\<exists>r'. manager_setup example_manager ([''structure''] @ ''forces'' # [''eigenvalues'']) example_quantities = Inr r'
         \<and> quantities_to_parse r' = [''poscar-structure'']
         \<and> Not_implemented ''forces'' \<in> set (logged r'))"
proof -
  have unknown: "get_by_name example_quantities ''forces'' = None"
    by (simp add: example_defs)
  have run: "manager_setup example_manager ([''structure''] @ [''eigenvalues'']) example_quantities
   = Inr (example_manager\<lparr>quantities_to_parse := [''poscar-structure''],
        logged := [Not_retrieved ''eigenvalues'' [''vasprun.xml'', ''EIGENVAL''],
                   Not_in_retrieve_list ''EIGENVAL'']\<rparr>)"
    by (simp add: manager_defs example_defs)
  from unknown_quantity_skipped [OF unknown run] unknown show ?thesis
    by simp
qed

text \<open>
  Claim C5, at an input where the code departs from it. The eigenvalues are requested
  and not parsable; the two files they need, \<open>vasprun.xml\<close> and \<open>EIGENVAL\<close>, are in
  neither retrieve list of the job. The full list of missing files is logged, but only
  the last of the two, \<open>EIGENVAL\<close>, is logged as not being in the list of files to be
  retrieved.
\<close>

theorem missing_files_only_last_reported:
  "get_missing_files example_quantities ''eigenvalues'' = Inr [''vasprun.xml'', ''EIGENVAL'']
   \<and> get_retrieve_temporary_list (manager_node example_manager) = Some []
   \<and> get_retrieve_list (manager_node example_manager) = Some [''OUTCAR'']
   \<and> manager_setup example_manager [''eigenvalues''] example_quantities
     = Inr (example_manager\<lparr>logged :=
              [Not_retrieved ''eigenvalues'' [''vasprun.xml'', ''EIGENVAL''],
               Not_in_retrieve_list ''EIGENVAL'']\<rparr>)"
  by (simp add: manager_defs example_defs)

section \<open>Collecting the composer inputs: the claims\<close>

lemmas collect_defs =
  get_node_composer_inputs_def collect_quantity_data_def NODES_TYPES_def
  get_alternative_parsed_quantity_def dict_get_def dict_contains_def Let_def

text \<open>
  Claim C2, at an input where the code departs from it. The structure is required and
  has no entry of its own. Its equivalent from \<open>POSCAR\<close> has a parsed value; its
  equivalent from \<open>OUTCAR\<close>, later in the registry's order, has an entry that is
  \<open>None\<close>. The loop over the equivalents assigns the primary's output key for both, so
  the inputs hold \<open>None\<close> under \<open>structure\<close> and the value from \<open>POSCAR\<close> is lost.
\<close>

theorem null_entry_overwrites_equivalent:
  "dict_get overwritten_structure_table ''structure'' = PNone
   \<and> get_by_name example_quantities ''structure'' = Some structure_quantity
   \<and> get_equivalent_quantities example_quantities ''structure''
     = Inr [structure_quantity, poscar_quantity, outcar_quantity]
   \<and> dict_get overwritten_structure_table (original_name poscar_quantity)
     = PStr ''cell of POSCAR''
   \<and> dict_get overwritten_structure_table (original_name outcar_quantity) = PNone
   \<and> get_node_composer_inputs example_class example_quantities overwritten_structure_table
        None (Some ''structure'') None
     = Inr [(name structure_quantity, PNone)]"
  by (simp add: collect_defs example_defs overwritten_structure_table_def)

text \<open>
  Claim C1, at an input where the code departs from it. The structure is required; its
  own entry in the table is \<open>None\<close> and none of its equivalents has a value that is not
  \<open>None\<close>. The collected inputs nevertheless have the key \<open>structure\<close>, with the value
  \<open>None\<close>: the loop over the equivalents tests whether the name is a key of the table,
  not whether its value is \<open>None\<close>.
\<close>

theorem null_entry_is_collected:
  "dict_get failed_structure_table ''structure'' = PNone
   \<and> get_equivalent_quantities example_quantities ''structure''
     = Inr [structure_quantity, poscar_quantity, outcar_quantity]
   \<and> dict_get failed_structure_table (original_name structure_quantity) = PNone
   \<and> dict_get failed_structure_table (original_name poscar_quantity) = PNone
   \<and> dict_get failed_structure_table (original_name outcar_quantity) = PNone
   \<and> get_node_composer_inputs example_class example_quantities failed_structure_table None
        (Some ''structure'') None
     = Inr [(''structure'', PNone)]"
  by (simp add: collect_defs example_defs failed_structure_table_def)

end
